theory Spec2Isabelle
  imports Complex_Main "HOL-Library.Word" "HOL-Library.Sublist"
begin

section \<open>Common types\<close>

text \<open>
  Go's \<open>int\<close> is a 64-bit two's complement integer on the platforms the proxy is built
  for. Counters that the code increments and the weights it converts to \<open>float64\<close> are
  64-bit words (\<open>+\<close> wraps, \<open>sint\<close> reads the signed value); integers that are only
  read and compared (quotas, identifiers, status codes) are their values as \<open>int\<close>. A
  \<open>time.Time\<close> is the clock reading in nanoseconds, a \<open>time.Duration\<close> a signed 64-bit
  count of nanoseconds.
\<close>

type_synonym go_int = "64 word"
type_synonym time = int
type_synonym duration = int

definition maxDuration :: duration where
  "maxDuration = 9223372036854775807"

definition minDuration :: duration where
  "minDuration = - 9223372036854775808"

text \<open>\<open>t.Sub(u)\<close>: the difference, saturated to the range of \<open>time.Duration\<close>.\<close>

definition time_Sub :: "time \<Rightarrow> time \<Rightarrow> duration" where
  "time_Sub t u =
     (let d = t - u in
      if d > maxDuration then maxDuration
      else if d < minDuration then minDuration
      else d)"

text \<open>\<open>time.Duration(n) * time.Second\<close>: a 64-bit multiplication, which wraps.\<close>

definition seconds :: "int \<Rightarrow> duration" where
  "seconds n = sint ((word_of_int n :: 64 word) * 1000000000)"

section \<open>Rate limiter (package middleware)\<close>

record HostCount =
  hc_count :: go_int
  hc_lastSeen :: time

record IPLimit =
  ip_count :: go_int
  ip_lastSeen :: time
  hostCounts :: "string \<rightharpoonup> HostCount"

record DNSRateLimitConfig =
  Hostname :: string
  Enabled :: bool
  Quota :: int
  PeriodSecs :: int
  LastUpdated :: time

record RateLimiter =
  ipMap :: "string \<rightharpoonup> IPLimit"
  dnsConfigMap :: "string \<rightharpoonup> DNSRateLimitConfig"
  defaultMaxRequests :: int
  defaultInterval :: duration

text \<open>What the middleware reads of the request: \<open>c.Path()\<close>, \<open>c.IP()\<close>, \<open>c.Hostname()\<close>.\<close>

record Ctx =
  ctx_Path :: string
  ctx_IP :: string
  ctx_Hostname :: string

text \<open>
  The handler either calls \<open>c.Next()\<close> or answers itself with a status and the text of
  the JSON \<open>error\<close> field.
\<close>

datatype decision = Next | Reject int string

definition rate_limit_message :: string where
  "rate_limit_message = ''Rate limit exceeded for this hostname. Please try again later.''"

definition is_admin_path :: "string \<Rightarrow> bool" where
  "is_admin_path p \<longleftrightarrow> p \<noteq> ''/'' \<and> length p \<ge> 6 \<and> take 6 p = ''/admin''"

text \<open>
  \<open>maxRequests\<close> and \<open>interval\<close> start as the defaults and are replaced by the host's
  values when a configuration exists and is enabled.
\<close>

definition maxRequests_for :: "RateLimiter \<Rightarrow> string \<Rightarrow> int" where
  "maxRequests_for rl hostname =
     (case dnsConfigMap rl hostname of
        Some config \<Rightarrow> if Enabled config then Quota config else defaultMaxRequests rl
      | None \<Rightarrow> defaultMaxRequests rl)"

definition interval_for :: "RateLimiter \<Rightarrow> string \<Rightarrow> duration" where
  "interval_for rl hostname =
     (case dnsConfigMap rl hostname of
        Some config \<Rightarrow> if Enabled config then seconds (PeriodSecs config) else defaultInterval rl
      | None \<Rightarrow> defaultInterval rl)"

text \<open>The \<open>else if exists && !config.Enabled\<close> branch: limiting is skipped.\<close>

definition limiting_disabled :: "RateLimiter \<Rightarrow> string \<Rightarrow> bool" where
  "limiting_disabled rl hostname =
     (case dnsConfigMap rl hostname of
        Some config \<Rightarrow> \<not> Enabled config
      | None \<Rightarrow> False)"

definition store_limit :: "RateLimiter \<Rightarrow> string \<Rightarrow> IPLimit \<Rightarrow> RateLimiter" where
  "store_limit rl ip limit = rl\<lparr>ipMap := (ipMap rl)(ip \<mapsto> limit)\<rparr>"

definition store_hostCount :: "IPLimit \<Rightarrow> string \<Rightarrow> HostCount \<Rightarrow> IPLimit" where
  "store_hostCount limit hostname hc = limit\<lparr>hostCounts := (hostCounts limit)(hostname \<mapsto> hc)\<rparr>"

text \<open>
  \<open>RateLimiterMiddleware\<close>, with \<open>now\<close> the reading of \<open>time.Now()\<close>. \<open>limit\<close> and
  \<open>hostCount\<close> are pointers into the maps, so every write to them is a write to the
  limiter's state.
\<close>

definition RateLimiterMiddleware :: "RateLimiter \<Rightarrow> time \<Rightarrow> Ctx \<Rightarrow> decision \<times> RateLimiter" where
  "RateLimiterMiddleware rl now c =
     (if is_admin_path (ctx_Path c) then (Next, rl)
      else
        let ip = ctx_IP c;
            hostname = ctx_Hostname c;
            maxRequests = maxRequests_for rl hostname;
            interval = interval_for rl hostname
        in
        if limiting_disabled rl hostname then (Next, rl)
        else
          (case ipMap rl ip of
             None \<Rightarrow>
               (Next,
                store_limit rl ip
                  \<lparr>ip_count = 1, ip_lastSeen = now,
                   hostCounts = [hostname \<mapsto> \<lparr>hc_count = 1, hc_lastSeen = now\<rparr>]\<rparr>)
           | Some limit0 \<Rightarrow>
               let limit = limit0\<lparr>ip_count := ip_count limit0 + 1, ip_lastSeen := now\<rparr> in
               (case hostCounts limit hostname of
                  None \<Rightarrow>
                    (Next,
                     store_limit rl ip
                       (store_hostCount limit hostname \<lparr>hc_count = 1, hc_lastSeen = now\<rparr>))
                | Some hostCount \<Rightarrow>
                    if time_Sub now (hc_lastSeen hostCount) > interval then
                      (Next,
                       store_limit rl ip
                         (store_hostCount limit hostname \<lparr>hc_count = 1, hc_lastSeen = now\<rparr>))
                    else
                      let hostCount' = \<lparr>hc_count = hc_count hostCount + 1, hc_lastSeen = now\<rparr>;
                          rl' = store_limit rl ip (store_hostCount limit hostname hostCount')
                      in
                      if sint (hc_count hostCount') > maxRequests
                      then (Reject 429 rate_limit_message, rl')
                      else (Next, rl'))))"

text \<open>
  The decision as the specification words it, on a counter \<open>(count, window_start)\<close>:
  the window is reset when the time since its start exceeds the period; otherwise the
  count grows and the window start stays.
\<close>

definition spec_window_decision :: "int \<Rightarrow> duration \<Rightarrow> time \<Rightarrow> int \<times> time \<Rightarrow> decision \<times> (int \<times> time)" where
  "spec_window_decision quota period now st =
     (case st of (count, window_start) \<Rightarrow>
        if now - window_start > period then (Next, (1, now))
        else if count + 1 > quota then (Reject 429 rate_limit_message, (count + 1, window_start))
        else (Next, (count + 1, window_start)))"

section \<open>Go standard library\<close>

text \<open>
  The functions of Go's standard library that the proxy calls and whose code is not part
  of the repository are parameters of the model: \<open>net.ParseCIDR\<close> (the network of a
  CIDR pattern, or an error), \<open>net.ParseIP\<close> (\<open>nil\<close> when the text is no address),
  \<open>(*IPNet).Contains\<close>, \<open>net.SplitHostPort\<close>, \<open>strings.TrimSpace\<close>, and \<open>url.Parse\<close>
  reduced to the \<open>Host\<close> of the parsed URL.
\<close>

record ('ip, 'net) stdlib =
  net_ParseCIDR :: "string \<Rightarrow> 'net option"
  net_ParseIP :: "string \<Rightarrow> 'ip option"
  IPNet_Contains :: "'net \<Rightarrow> 'ip \<Rightarrow> bool"
  net_SplitHostPort :: "string \<Rightarrow> (string \<times> string) option"
  strings_TrimSpace :: "string \<Rightarrow> string"
  url_Parse :: "string \<Rightarrow> string option"

text \<open>Go strings are byte sequences; so are HOL's.\<close>

definition strings_Contains :: "string \<Rightarrow> string \<Rightarrow> bool" where
  "strings_Contains s substr \<longleftrightarrow> sublist substr s"

definition strings_HasPrefix :: "string \<Rightarrow> string \<Rightarrow> bool" where
  "strings_HasPrefix s pre \<longleftrightarrow> prefix pre s"

definition strings_HasSuffix :: "string \<Rightarrow> string \<Rightarrow> bool" where
  "strings_HasSuffix s suf \<longleftrightarrow> suffix suf s"

section \<open>Filter engine (package filter)\<close>

text \<open>
  \<open>FilterMatchType\<close> and \<open>FilterActionType\<close> are string types with named constants;
  a rule read from the store can carry any string.
\<close>

definition FilterMatchTypeIP :: string where "FilterMatchTypeIP = ''ip''"
definition FilterMatchTypePath :: string where "FilterMatchTypePath = ''path''"
definition FilterMatchTypeDNS :: string where "FilterMatchTypeDNS = ''dns''"

definition FilterActionRedirect :: string where "FilterActionRedirect = ''redirect''"
definition FilterActionBadRequest :: string where "FilterActionBadRequest = ''bad_request''"
definition FilterActionTooMany :: string where "FilterActionTooMany = ''too_many''"
definition FilterActionCustom :: string where "FilterActionCustom = ''custom''"

record FilterRule =
  rule_ID :: int
  rule_Name :: string
  MatchType :: string
  MatchValue :: string
  ActionType :: string
  ActionValue :: string
  rule_StatusCode :: int
  rule_IsActive :: bool
  rule_CreatedAt :: time
  rule_UpdatedAt :: time
  Priority :: int

text \<open>
  The fields of \<open>*http.Request\<close> that the handlers read; an absent header reads as the
  empty string.
\<close>

record Request =
  req_Host :: string
  req_Path :: string
  req_RemoteAddr :: string
  hdr_XForwardedFor :: string
  hdr_XRealIP :: string
  hdr_UserAgent :: string

definition matchesWildcard :: "string \<Rightarrow> string \<Rightarrow> bool" where
  "matchesWildcard pattern text =
     (if pattern = ''*'' then True
      else if strings_HasPrefix pattern ''*'' \<and> strings_HasSuffix pattern ''*''
        then strings_Contains text (butlast (tl pattern))
      else if strings_HasPrefix pattern ''*''
        then strings_HasSuffix text (tl pattern)
      else if strings_HasSuffix pattern ''*''
        then strings_HasPrefix text (butlast pattern)
      else pattern = text)"

definition matchesIP :: "('ip, 'net, 'x) stdlib_scheme \<Rightarrow> string \<Rightarrow> string \<Rightarrow> bool" where
  "matchesIP lib pattern clientIP =
     (if strings_Contains pattern ''/'' then
        (case net_ParseCIDR lib pattern of
           None \<Rightarrow> False
         | Some ipNet \<Rightarrow>
             (case net_ParseIP lib clientIP of
                None \<Rightarrow> False
              | Some ip \<Rightarrow> IPNet_Contains lib ipNet ip))
      else if strings_Contains pattern ''*'' then matchesWildcard pattern clientIP
      else strings_Contains clientIP pattern)"

definition matchesPath :: "string \<Rightarrow> string \<Rightarrow> bool" where
  "matchesPath pattern requestPath =
     (if strings_Contains pattern ''*'' then matchesWildcard pattern requestPath
      else if strings_HasSuffix pattern ''/'' then strings_HasPrefix requestPath pattern
      else strings_Contains requestPath pattern)"

definition matchesDNS :: "string \<Rightarrow> string \<Rightarrow> bool" where
  "matchesDNS pattern hostname =
     (if strings_Contains pattern ''*'' then matchesWildcard pattern hostname
      else strings_Contains hostname pattern)"

definition matchesRule ::
  "('ip, 'net, 'x) stdlib_scheme \<Rightarrow> FilterRule \<Rightarrow> string \<Rightarrow> string \<Rightarrow> string \<Rightarrow> bool" where
  "matchesRule lib rule clientIP hostname requestPath =
     (if MatchType rule = FilterMatchTypeIP then matchesIP lib (MatchValue rule) clientIP
      else if MatchType rule = FilterMatchTypePath then matchesPath (MatchValue rule) requestPath
      else if MatchType rule = FilterMatchTypeDNS then matchesDNS (MatchValue rule) hostname
      else False)"

definition getStatusCodeForAction :: "FilterRule \<Rightarrow> int" where
  "getStatusCodeForAction rule =
     (if ActionType rule = FilterActionRedirect then 302
      else if ActionType rule = FilterActionBadRequest then 400
      else if ActionType rule = FilterActionTooMany then 429
      else if ActionType rule = FilterActionCustom then
        (if rule_StatusCode rule > 0 then rule_StatusCode rule else 403)
      else 403)"

definition getResponseForAction :: "FilterRule \<Rightarrow> string" where
  "getResponseForAction rule =
     (if ActionType rule = FilterActionRedirect then []
      else if ActionType rule = FilterActionBadRequest then
        (if ActionValue rule \<noteq> [] then ActionValue rule else ''Bad Request'')
      else if ActionType rule = FilterActionTooMany then
        (if ActionValue rule \<noteq> [] then ActionValue rule else ''Too Many Requests'')
      else if ActionType rule = FilterActionCustom then
        (if ActionValue rule \<noteq> [] then ActionValue rule else ''Request Blocked'')
      else ''Request Blocked'')"

definition getRedirectURLForAction :: "FilterRule \<Rightarrow> string" where
  "getRedirectURLForAction rule =
     (if ActionType rule = FilterActionRedirect then ActionValue rule else [])"

text \<open>
  \<open>getClientIP\<close>. \<open>strings.Split\<close> on a comma never returns an empty slice, and its first
  element is the text before the first comma.
\<close>

definition getClientIP :: "('ip, 'net, 'x) stdlib_scheme \<Rightarrow> Request \<Rightarrow> string" where
  "getClientIP lib r =
     (if hdr_XForwardedFor r \<noteq> [] then
        strings_TrimSpace lib (takeWhile (\<lambda>ch. ch \<noteq> CHR '','') (hdr_XForwardedFor r))
      else if hdr_XRealIP r \<noteq> [] then hdr_XRealIP r
      else
        (case net_SplitHostPort lib (req_RemoteAddr r) of
           None \<Rightarrow> req_RemoteAddr r
         | Some (ip, port) \<Rightarrow> ip))"

record FilterResult =
  Filtered :: bool
  Rule :: FilterRule
  res_StatusCode :: int
  Response :: string
  RedirectURL :: string

text \<open>The row that \<open>logFilteredRequest\<close> inserts into \<open>filter_logs\<close>.\<close>

record FilterLog =
  fl_ClientIP :: string
  fl_Hostname :: string
  fl_RequestPath :: string
  fl_UserAgent :: string
  fl_FilterID :: int
  fl_MatchType :: string
  fl_MatchValue :: string
  fl_ActionType :: string
  fl_StatusCode :: int

definition logFilteredRequest :: "string \<Rightarrow> string \<Rightarrow> string \<Rightarrow> string \<Rightarrow> FilterRule \<Rightarrow> FilterLog" where
  "logFilteredRequest clientIP hostname requestPath userAgent rule =
     \<lparr>fl_ClientIP = clientIP, fl_Hostname = hostname, fl_RequestPath = requestPath,
      fl_UserAgent = userAgent, fl_FilterID = rule_ID rule,
      fl_MatchType = MatchType rule, fl_MatchValue = MatchValue rule,
      fl_ActionType = ActionType rule, fl_StatusCode = getStatusCodeForAction rule\<rparr>"

text \<open>Go's zero value of \<open>models.FilterRule\<close>, the \<open>Rule\<close> of an unfiltered result.\<close>

definition zero_FilterRule :: FilterRule where
  "zero_FilterRule =
     \<lparr>rule_ID = 0, rule_Name = [], MatchType = [], MatchValue = [], ActionType = [],
      ActionValue = [], rule_StatusCode = 0, rule_IsActive = False, rule_CreatedAt = 0,
      rule_UpdatedAt = 0, Priority = 0\<rparr>"

text \<open>
  The loop of \<open>FilterRequest\<close> over the copy of the rule cache. The result comes with the
  filter-log rows whose insertion the call starts (\<open>go logFilteredRequest(...)\<close>).
\<close>

fun FilterRequest_loop ::
  "('ip, 'net, 'x) stdlib_scheme \<Rightarrow> FilterRule list \<Rightarrow> string \<Rightarrow> string \<Rightarrow> string \<Rightarrow> string
     \<Rightarrow> FilterResult \<times> FilterLog list" where
  "FilterRequest_loop lib [] clientIP hostname requestPath userAgent =
     (\<lparr>Filtered = False, Rule = zero_FilterRule, res_StatusCode = 0, Response = [],
       RedirectURL = []\<rparr>, [])"
| "FilterRequest_loop lib (rule # rules) clientIP hostname requestPath userAgent =
     (if matchesRule lib rule clientIP hostname requestPath then
        (\<lparr>Filtered = True, Rule = rule, res_StatusCode = getStatusCodeForAction rule,
          Response = getResponseForAction rule, RedirectURL = getRedirectURLForAction rule\<rparr>,
         [logFilteredRequest clientIP hostname requestPath userAgent rule])
      else FilterRequest_loop lib rules clientIP hostname requestPath userAgent)"

definition FilterRequest ::
  "('ip, 'net, 'x) stdlib_scheme \<Rightarrow> FilterRule list \<Rightarrow> Request \<Rightarrow> FilterResult \<times> FilterLog list" where
  "FilterRequest lib filterRuleCache r =
     FilterRequest_loop lib filterRuleCache (getClientIP lib r) (req_Host r) (req_Path r)
       (hdr_UserAgent r)"

section \<open>float64 arithmetic\<close>

text \<open>
  \<open>selectBackend\<close> computes in \<open>float64\<close>. A \<open>float64\<close> is a rational with a 53-bit
  significand, an infinity or NaN; every operation rounds the exact result to the nearest
  representable value, ties to the even significand. The sign of a zero is not
  represented: the only zero this program divides by is the conversion of the integer
  0, which is \<open>+0\<close>.
\<close>

datatype float64 = Finite rat | PosInf | NegInf | NaN

text \<open>The number of binary digits of a positive integer.\<close>

function bit_length :: "int \<Rightarrow> nat" where
  "bit_length n = (if n \<le> 0 then 0 else Suc (bit_length (n div 2)))"
  by pat_completeness auto
termination
  by (relation "measure nat") auto

declare bit_length.simps [simp del]

text \<open>For \<open>q > 0\<close>, the exponent \<open>e\<close> with \<open>2 ^ e \<le> q < 2 ^ (e + 1)\<close>.\<close>

definition floor_log2 :: "rat \<Rightarrow> int" where
  "floor_log2 q =
     (case quotient_of q of (a, b) \<Rightarrow>
        let k = int (bit_length a) - int (bit_length b)
        in if 2 powi k \<le> q then k else k - 1)"

definition round_half_even :: "rat \<Rightarrow> int" where
  "round_half_even x =
     (let f = \<lfloor>x\<rfloor>; d = x - of_int f
      in if d < 1 / 2 then f
         else if d > 1 / 2 then f + 1
         else if even f then f else f + 1)"

definition f64_round :: "rat \<Rightarrow> float64" where
  "f64_round q =
     (if q = 0 then Finite 0
      else
        let e = max (floor_log2 \<bar>q\<bar>) (- 1022);
            quantum = 2 powi (e - 52);
            r = of_int (round_half_even (q / quantum)) * quantum
        in if e < 1023 then Finite r
           else if \<bar>r\<bar> \<ge> 2 powi 1024 then (if q > 0 then PosInf else NegInf)
           else Finite r)"

definition f64_of_int :: "int \<Rightarrow> float64" where
  "f64_of_int n = f64_round (of_int n)"

fun f64_div :: "float64 \<Rightarrow> float64 \<Rightarrow> float64" where
  "f64_div NaN y = NaN"
| "f64_div x NaN = NaN"
| "f64_div (Finite a) (Finite b) =
     (if b = 0 then (if a = 0 then NaN else if a > 0 then PosInf else NegInf)
      else f64_round (a / b))"
| "f64_div (Finite a) PosInf = Finite 0"
| "f64_div (Finite a) NegInf = Finite 0"
| "f64_div PosInf (Finite b) = (if b < 0 then NegInf else PosInf)"
| "f64_div NegInf (Finite b) = (if b < 0 then PosInf else NegInf)"
| "f64_div PosInf PosInf = NaN"
| "f64_div PosInf NegInf = NaN"
| "f64_div NegInf PosInf = NaN"
| "f64_div NegInf NegInf = NaN"

fun f64_sub :: "float64 \<Rightarrow> float64 \<Rightarrow> float64" where
  "f64_sub NaN y = NaN"
| "f64_sub x NaN = NaN"
| "f64_sub (Finite a) (Finite b) = f64_round (a - b)"
| "f64_sub (Finite a) PosInf = NegInf"
| "f64_sub (Finite a) NegInf = PosInf"
| "f64_sub PosInf (Finite b) = PosInf"
| "f64_sub NegInf (Finite b) = NegInf"
| "f64_sub PosInf PosInf = NaN"
| "f64_sub NegInf NegInf = NaN"
| "f64_sub PosInf NegInf = PosInf"
| "f64_sub NegInf PosInf = NegInf"

text \<open>\<open>x > y\<close> on \<open>float64\<close>: false whenever an operand is NaN.\<close>

fun f64_gt :: "float64 \<Rightarrow> float64 \<Rightarrow> bool" where
  "f64_gt NaN y = False"
| "f64_gt x NaN = False"
| "f64_gt (Finite a) (Finite b) = (a > b)"
| "f64_gt (Finite a) PosInf = False"
| "f64_gt (Finite a) NegInf = True"
| "f64_gt PosInf (Finite b) = True"
| "f64_gt PosInf PosInf = False"
| "f64_gt PosInf NegInf = True"
| "f64_gt NegInf y = False"

section \<open>Proxy (package proxy)\<close>

record Backend =
  backend_ID :: int
  URL :: string
  Weight :: go_int
  IsActive :: bool
  Ratio :: float64

text \<open>
  The package-level variables of the data plane: the routing cache and the selection
  counters of package proxy, and the rule cache of package filter.
\<close>

record Globals =
  dnsRuleCache :: "string \<rightharpoonup> Backend list"
  backendCountMap :: "string \<rightharpoonup> go_int"
  filterRuleCache :: "FilterRule list"

datatype go_panic = IndexOutOfRange | NilPointerDereference

text \<open>Reading a Go map at a missing key gives the zero value; \<open>m[k]++\<close> stores the read value plus one.\<close>

definition count_of :: "(string \<rightharpoonup> go_int) \<Rightarrow> string \<Rightarrow> go_int" where
  "count_of m k = (case m k of None \<Rightarrow> 0 | Some c \<Rightarrow> c)"

definition increment :: "(string \<rightharpoonup> go_int) \<Rightarrow> string \<Rightarrow> (string \<rightharpoonup> go_int)" where
  "increment m k = m(k \<mapsto> count_of m k + 1)"

subsection \<open>refreshCache\<close>

text \<open>
  What the configuration store answers to the queries of \<open>refreshCache\<close>: \<open>None\<close> is a
  failed query, \<open>ScanError\<close> a row whose \<open>Scan\<close> fails (the loop continues with the next
  row).
\<close>

datatype 'a scanned = ScanError | Scanned 'a

record ConfigStore =
  dns_rules_query :: "(int \<times> string) scanned list option"
  backends_query :: "int \<Rightarrow> Backend scanned list option"

fun collect_backends :: "Backend scanned list \<Rightarrow> Backend list" where
  "collect_backends [] = []"
| "collect_backends (ScanError # rows) = collect_backends rows"
| "collect_backends (Scanned backend # rows) =
     (if IsActive backend then backend # collect_backends rows else collect_backends rows)"

fun refresh_rows ::
  "ConfigStore \<Rightarrow> (int \<times> string) scanned list \<Rightarrow> (string \<rightharpoonup> Backend list) \<Rightarrow> (string \<rightharpoonup> Backend list)" where
  "refresh_rows db [] tempCache = tempCache"
| "refresh_rows db (ScanError # rows) tempCache = refresh_rows db rows tempCache"
| "refresh_rows db (Scanned (rule_id, hostname) # rows) tempCache =
     (case backends_query db rule_id of
        None \<Rightarrow> refresh_rows db rows tempCache
      | Some backendRows \<Rightarrow>
          let backends = collect_backends backendRows in
          if length backends > 0
          then refresh_rows db rows (tempCache(hostname \<mapsto> backends))
          else refresh_rows db rows tempCache)"

definition refreshCache :: "ConfigStore \<Rightarrow> Globals \<Rightarrow> Globals" where
  "refreshCache db g =
     (case dns_rules_query db of
        None \<Rightarrow> g
      | Some rows \<Rightarrow> g\<lparr>dnsRuleCache := refresh_rows db rows Map.empty\<rparr>)"

subsection \<open>selectBackend\<close>

definition min_weight :: "go_int \<Rightarrow> Backend list \<Rightarrow> go_int" where
  "min_weight w0 backends =
     fold (\<lambda>backend minWeight.
             if sint (Weight backend) < sint minWeight then Weight backend else minWeight)
       backends w0"

definition ratio_of :: "go_int \<Rightarrow> Backend \<Rightarrow> float64" where
  "ratio_of minWeight backend =
     f64_div (f64_of_int (sint (Weight backend))) (f64_of_int (sint minWeight))"

definition priority_of :: "go_int \<Rightarrow> (string \<rightharpoonup> go_int) \<Rightarrow> Backend \<Rightarrow> float64" where
  "priority_of minWeight counts backend =
     f64_sub (ratio_of minWeight backend) (f64_of_int (sint (count_of counts (URL backend))))"

text \<open>
  The selection loop from index \<open>i\<close> on; the accumulator is \<open>selectedBackend\<close> (the index
  it points to, \<open>None\<close> for \<open>nil\<close>) and \<open>maxPriorityValue\<close>.
\<close>

fun select_loop ::
  "go_int \<Rightarrow> (string \<rightharpoonup> go_int) \<Rightarrow> Backend list \<Rightarrow> nat \<Rightarrow> nat option \<times> float64
     \<Rightarrow> nat option \<times> float64" where
  "select_loop minWeight counts [] i acc = acc"
| "select_loop minWeight counts (backend # rest) i (selectedBackend, maxPriorityValue) =
     (let priority = priority_of minWeight counts backend in
      if selectedBackend = None \<or> f64_gt priority maxPriorityValue
      then select_loop minWeight counts rest (Suc i) (Some i, priority)
      else select_loop minWeight counts rest (Suc i) (selectedBackend, maxPriorityValue))"

text \<open>
  \<open>selectBackend\<close> returns a pointer into the slice: the model returns its index, the
  slice with the \<open>Ratio\<close> fields the loop has written, and the new counter map. An empty
  slice makes \<open>backends[0]\<close> panic.
\<close>

definition selectBackend ::
  "(string \<rightharpoonup> go_int) \<Rightarrow> Backend list
     \<Rightarrow> go_panic + (nat \<times> Backend list \<times> (string \<rightharpoonup> go_int))" where
  "selectBackend counts backends =
     (case backends of
        [] \<Rightarrow> Inl IndexOutOfRange
      | [backend] \<Rightarrow> Inr (0, backends, increment counts (URL backend))
      | first # _ \<Rightarrow>
          let minWeight = min_weight (Weight first) backends;
              backends' = map (\<lambda>backend. backend\<lparr>Ratio := ratio_of minWeight backend\<rparr>) backends
          in
          (case fst (select_loop minWeight counts backends 0 (None, Finite 0)) of
             None \<Rightarrow> Inl NilPointerDereference
           | Some i \<Rightarrow> Inr (i, backends', increment counts (URL (backends' ! i)))))"

subsection \<open>proxyHandler\<close>

text \<open>What the backend does with the forwarded request: it answers with a status, or the transport fails.\<close>

datatype upstream_result = UpstreamResponse int | UpstreamError

text \<open>The arguments of one call of \<open>logRequest\<close>.\<close>

record LogRequestCall =
  lr_clientIP :: string
  lr_hostname :: string
  lr_requestPath :: string
  lr_backendID :: int
  lr_latencyMS :: int
  lr_statusCode :: int
  lr_isSuccess :: bool

text \<open>
  What the client receives: a status and message written by the proxy itself
  (\<open>http.Error\<close>, or the error handler's 502), or the backend's response passed through.
\<close>

datatype response = ProxyReply int string | FromBackend int

record HandlerOutcome =
  reply :: response
  forwarded_to :: "(Backend \<times> string) option"
  log_calls :: "LogRequestCall list"
  filter_logs :: "FilterLog list"

definition proxyHandler ::
  "('ip, 'net, 'x) stdlib_scheme \<Rightarrow> Globals \<Rightarrow> Request \<Rightarrow> upstream_result \<Rightarrow> int
     \<Rightarrow> go_panic + (HandlerOutcome \<times> Globals)" where
  "proxyHandler lib g r upstream latencyMS =
     (let hostname = req_Host r;
          gone = \<lparr>reply = ProxyReply 410 (''No backends found for this hostname '' @ hostname),
                  forwarded_to = None, log_calls = [], filter_logs = []\<rparr>
      in
      case dnsRuleCache g hostname of
        None \<Rightarrow> Inr (gone, g)
      | Some backends \<Rightarrow>
          if length backends = 0 then Inr (gone, g)
          else
            (case selectBackend (backendCountMap g) backends of
               Inl p \<Rightarrow> Inl p
             | Inr (i, backends', counts') \<Rightarrow>
                 let backend = backends' ! i;
                     g' = g\<lparr>dnsRuleCache := (dnsRuleCache g)(hostname \<mapsto> backends'),
                            backendCountMap := counts'\<rparr>
                 in
                 (case url_Parse lib (URL backend) of
                    None \<Rightarrow>
                      Inr (\<lparr>reply = ProxyReply 500 ''Internal Server Error'',
                            forwarded_to = None, log_calls = [], filter_logs = []\<rparr>, g')
                  | Some targetHost \<Rightarrow>
                      (case upstream of
                         UpstreamResponse statusCode \<Rightarrow>
                           Inr (\<lparr>reply = FromBackend statusCode,
                                 forwarded_to = Some (backend, targetHost),
                                 log_calls =
                                   [\<lparr>lr_clientIP = req_RemoteAddr r, lr_hostname = hostname,
                                     lr_requestPath = req_Path r, lr_backendID = backend_ID backend,
                                     lr_latencyMS = latencyMS, lr_statusCode = statusCode,
                                     lr_isSuccess = True\<rparr>],
                                 filter_logs = []\<rparr>, g')
                       | UpstreamError \<Rightarrow>
                           Inr (\<lparr>reply = ProxyReply 502 ''Bad Gateway'',
                                 forwarded_to = Some (backend, targetHost),
                                 log_calls =
                                   [\<lparr>lr_clientIP = req_RemoteAddr r, lr_hostname = hostname,
                                     lr_requestPath = req_Path r, lr_backendID = backend_ID backend,
                                     lr_latencyMS = latencyMS, lr_statusCode = 502,
                                     lr_isSuccess = False\<rparr>],
                                 filter_logs = []\<rparr>, g')))))"

section \<open>Buffered log sink (package database)\<close>

record LogEntry =
  le_ClientIP :: string
  le_Hostname :: string
  le_RequestPath :: string
  le_BackendID :: int
  le_LatencyMS :: int
  le_StatusCode :: int
  le_IsSuccess :: bool
  le_UserAgent :: string
  le_FilteredBy :: int
  le_Timestamp :: time

record BufferedLogger =
  buffer :: "LogEntry list"
  batchSize :: int
  flushTime :: duration

text \<open>
  A row of the table \<open>request_logs\<close>. The timestamp column holds text of the form
  \<open>2006-01-02 15:04:05\<close>, which SQLite compares as text, that is, by the second it
  denotes: the model keeps the number of that second. \<open>hostname\<close> can be \<open>NULL\<close>.
\<close>

record RequestLogRow =
  row_timestamp :: int
  row_hostname :: "string option"
  row_entry :: "LogEntry option"

definition format_timestamp :: "time \<Rightarrow> int" where
  "format_timestamp t = t div 1000000000"

definition row_of_entry :: "LogEntry \<Rightarrow> RequestLogRow" where
  "row_of_entry entry =
     \<lparr>row_timestamp = format_timestamp (le_Timestamp entry),
      row_hostname = Some (le_Hostname entry),
      row_entry = Some entry\<rparr>"

text \<open>
  What can go wrong in one call of \<open>batchInsert\<close>: the handle is \<open>nil\<close>, \<open>Begin\<close> or
  \<open>Prepare\<close> fails, the \<open>Exec\<close> of the entry at some index fails, or \<open>Commit\<close> fails.
\<close>

datatype db_fault = NoFault | DBNil | BeginFails | PrepareFails | ExecFails nat | CommitFails

text \<open>
  \<open>batchInsert\<close> on the table: every failure leaves the transaction uncommitted
  (\<open>defer tx.Rollback()\<close>), so the table is unchanged; a commit appends all rows.
\<close>

definition batchInsert ::
  "RequestLogRow list \<Rightarrow> LogEntry list \<Rightarrow> db_fault \<Rightarrow> (string + unit) \<times> RequestLogRow list" where
  "batchInsert table entries fault =
     (case fault of
        DBNil \<Rightarrow> (Inl ''database not initialized'', table)
      | BeginFails \<Rightarrow> (Inl ''failed to begin transaction'', table)
      | PrepareFails \<Rightarrow> (Inl ''failed to prepare statement'', table)
      | ExecFails k \<Rightarrow>
          if k < length entries then (Inl ''failed to execute insert'', table)
          else (Inr (), table @ map row_of_entry entries)
      | CommitFails \<Rightarrow> (Inl ''failed to commit transaction'', table)
      | NoFault \<Rightarrow> (Inr (), table @ map row_of_entry entries))"

text \<open>What a flush does besides changing the table: sleeps, calls of \<open>batchInsert\<close>, log lines.\<close>

datatype sink_event =
    Sleep duration
  | BatchInsertCall
  | LogWrote nat
  | LogAttemptFailed nat string
  | LogGaveUp nat nat string

definition maxRetries :: nat where "maxRetries = 3"

definition baseDelay :: duration where "baseDelay = 100 * 1000000"

text \<open>
  The loop of \<open>writeToDatabase\<close> from the given value of \<open>attempt\<close>; \<open>faults k\<close> is what
  the call of \<open>batchInsert\<close> in iteration \<open>k\<close> meets.
\<close>

function writeToDatabase_from ::
  "(nat \<Rightarrow> db_fault) \<Rightarrow> LogEntry list \<Rightarrow> nat \<Rightarrow> RequestLogRow list
     \<Rightarrow> RequestLogRow list \<times> sink_event list" where
  "writeToDatabase_from faults entries attempt table =
     (if attempt < maxRetries then
        let backoff = (if attempt > 0 then [Sleep (baseDelay * 2 ^ (attempt - 1))] else [])
        in
        (case batchInsert table entries (faults attempt) of
           (Inr ok, table') \<Rightarrow>
             (table', backoff @ [BatchInsertCall, LogWrote (length entries)])
         | (Inl err, table') \<Rightarrow>
             let failed = [BatchInsertCall, LogAttemptFailed (attempt + 1) err]
                          @ (if attempt = maxRetries - 1
                             then [LogGaveUp (length entries) maxRetries err] else []);
                 (table'', later) = writeToDatabase_from faults entries (Suc attempt) table'
             in (table'', backoff @ failed @ later))
      else (table, []))"
  by pat_completeness auto
termination
  by (relation "measure (\<lambda>(faults, entries, attempt, table). maxRetries - attempt)") auto

declare writeToDatabase_from.simps [simp del]

definition writeToDatabase ::
  "(nat \<Rightarrow> db_fault) \<Rightarrow> LogEntry list \<Rightarrow> RequestLogRow list
     \<Rightarrow> RequestLogRow list \<times> sink_event list" where
  "writeToDatabase faults entries table = writeToDatabase_from faults entries 0 table"

text \<open>\<open>flush\<close>: copy and clear the buffer, then write the copy.\<close>

definition flush ::
  "(nat \<Rightarrow> db_fault) \<Rightarrow> BufferedLogger \<Rightarrow> RequestLogRow list
     \<Rightarrow> BufferedLogger \<times> RequestLogRow list \<times> sink_event list" where
  "flush faults bl table =
     (if length (buffer bl) = 0 then (bl, table, [])
      else
        let entries = buffer bl;
            bl' = bl\<lparr>buffer := []\<rparr>;
            (table', events) = writeToDatabase faults entries table
        in (bl', table', events))"

text \<open>Whether a call of \<open>batchInsert\<close> on these entries fails under the fault.\<close>

definition insert_fails :: "LogEntry list \<Rightarrow> db_fault \<Rightarrow> bool" where
  "insert_fails entries fault \<longleftrightarrow> fst (batchInsert [] entries fault) \<noteq> Inr ()"

definition insert_error :: "LogEntry list \<Rightarrow> db_fault \<Rightarrow> string" where
  "insert_error entries fault =
     (case fst (batchInsert [] entries fault) of Inl err \<Rightarrow> err | Inr ok \<Rightarrow> [])"

section \<open>Retention sweeper (package main)\<close>







text \<open>
  The retention in force for a rule, and the rows a sweep at \<open>now\<close> removes: those of a
  host whose rule was read and whose \<open>DELETE\<close> ran, older than that rule's cutoff, and
  those without a host older than the default cutoff.
\<close>

definition effective_retention :: "int \<Rightarrow> int" where
  "effective_retention days = (if days \<le> 0 then 30 else days)"



section \<open>An instance of the standard-library parameters\<close>

text \<open>
  To evaluate the model on concrete requests, the standard-library parameters are
  instantiated with functions that agree with Go's on the text used in the examples:
  dotted-decimal IPv4 addresses and networks, \<open>host:port\<close> with a single colon, ASCII
  white space, and \<open>http://host/path\<close> URLs. An address is its 32-bit value, a network
  its prefix and the prefix length.
\<close>

fun split_on :: "char \<Rightarrow> string \<Rightarrow> string list" where
  "split_on sep [] = [[]]"
| "split_on sep (ch # rest) =
     (if ch = sep then [] # split_on sep rest
      else (case split_on sep rest of
              [] \<Rightarrow> [[ch]]
            | part # parts \<Rightarrow> (ch # part) # parts))"

definition digit_value :: "char \<Rightarrow> nat option" where
  "digit_value ch =
     (let n = (of_char ch :: nat) in if 48 \<le> n \<and> n \<le> 57 then Some (n - 48) else None)"

fun parse_decimal_from :: "nat \<Rightarrow> string \<Rightarrow> nat option" where
  "parse_decimal_from acc [] = Some acc"
| "parse_decimal_from acc (ch # rest) =
     (case digit_value ch of
        None \<Rightarrow> None
      | Some d \<Rightarrow> parse_decimal_from (10 * acc + d) rest)"

definition parse_decimal :: "string \<Rightarrow> nat option" where
  "parse_decimal s =
     (if s = [] \<or> length s > 3 \<or> (length s > 1 \<and> hd s = CHR ''0'') then None
      else parse_decimal_from 0 s)"

definition ipv4_ParseIP :: "string \<Rightarrow> int option" where
  "ipv4_ParseIP s =
     (case map parse_decimal (split_on CHR ''.'' s) of
        [Some a, Some b, Some c, Some d] \<Rightarrow>
          if a \<le> 255 \<and> b \<le> 255 \<and> c \<le> 255 \<and> d \<le> 255
          then Some (((int a * 256 + int b) * 256 + int c) * 256 + int d) else None
      | _ \<Rightarrow> None)"

definition ipv4_ParseCIDR :: "string \<Rightarrow> (int \<times> nat) option" where
  "ipv4_ParseCIDR s =
     (case split_on CHR ''/'' s of
        [addr, bits] \<Rightarrow>
          (case (ipv4_ParseIP addr, parse_decimal bits) of
             (Some ip, Some n) \<Rightarrow> if n \<le> 32 then Some (ip div 2 ^ (32 - n), n) else None
           | _ \<Rightarrow> None)
      | _ \<Rightarrow> None)"

definition ipv4_Contains :: "int \<times> nat \<Rightarrow> int \<Rightarrow> bool" where
  "ipv4_Contains net ip = (case net of (pfx, n) \<Rightarrow> ip div 2 ^ (32 - n) = pfx)"

definition simple_SplitHostPort :: "string \<Rightarrow> (string \<times> string) option" where
  "simple_SplitHostPort s =
     (case split_on CHR '':'' s of
        [host, port] \<Rightarrow> Some (host, port)
      | _ \<Rightarrow> None)"

definition is_ascii_space :: "char \<Rightarrow> bool" where
  "is_ascii_space ch \<longleftrightarrow> (of_char ch :: nat) \<in> {9, 10, 11, 12, 13, 32}"

definition ascii_TrimSpace :: "string \<Rightarrow> string" where
  "ascii_TrimSpace s = rev (dropWhile is_ascii_space (rev (dropWhile is_ascii_space s)))"

definition simple_url_Parse :: "string \<Rightarrow> string option" where
  "simple_url_Parse s =
     (if prefix ''http://'' s then Some (takeWhile (\<lambda>ch. ch \<noteq> CHR ''/'') (drop 7 s))
      else None)"

definition example_lib :: "(int, int \<times> nat) stdlib" where
  "example_lib =
     \<lparr>net_ParseCIDR = ipv4_ParseCIDR, net_ParseIP = ipv4_ParseIP, IPNet_Contains = ipv4_Contains,
      net_SplitHostPort = simple_SplitHostPort, strings_TrimSpace = ascii_TrimSpace,
      url_Parse = simple_url_Parse\<rparr>"

section \<open>Example inputs\<close>

definition u1 :: Backend where
  "u1 = \<lparr>backend_ID = 1, URL = ''http://u1'', Weight = 1, IsActive = True, Ratio = Finite 0\<rparr>"

definition u2 :: Backend where
  "u2 = \<lparr>backend_ID = 2, URL = ''http://u2'', Weight = 3, IsActive = True, Ratio = Finite 0\<rparr>"

definition backend_of :: "int \<Rightarrow> string \<Rightarrow> go_int \<Rightarrow> Backend" where
  "backend_of n url w = \<lparr>backend_ID = n, URL = url, Weight = w, IsActive = True, Ratio = Finite 0\<rparr>"

definition example_request :: Request where
  "example_request =
     \<lparr>req_Host = ''api.test'', req_Path = ''/legacy/a'', req_RemoteAddr = ''192.0.2.5:40000'',
      hdr_XForwardedFor = [], hdr_XRealIP = [], hdr_UserAgent = ''curl''\<rparr>"

definition example_rule :: FilterRule where
  "example_rule =
     \<lparr>rule_ID = 7, rule_Name = ''legacy'', MatchType = ''path'', MatchValue = ''/legacy*'',
      ActionType = ''redirect'', ActionValue = ''https://new.example/legacy'',
      rule_StatusCode = 0, rule_IsActive = True, rule_CreatedAt = 0, rule_UpdatedAt = 0,
      Priority = 10\<rparr>"

definition example_globals :: Globals where
  "example_globals =
     \<lparr>dnsRuleCache = [''api.test'' \<mapsto> [u1]], backendCountMap = Map.empty,
      filterRuleCache = [example_rule]\<rparr>"

text \<open>The limiter as \<open>main\<close> creates it: \<open>NewRateLimiter(100, time.Minute)\<close>.\<close>

definition main_limiter :: RateLimiter where
  "main_limiter =
     \<lparr>ipMap = Map.empty, dnsConfigMap = Map.empty, defaultMaxRequests = 100,
      defaultInterval = 60000000000\<rparr>"

definition example_ctx :: Ctx where
  "example_ctx = \<lparr>ctx_Path = ''/ping'', ctx_IP = ''198.51.100.7'', ctx_Hostname = ''api.test''\<rparr>"

text \<open>A host limited to 2 requests per 60 seconds, and a client with one counted host.\<close>

definition example_config :: DNSRateLimitConfig where
  "example_config =
     \<lparr>Hostname = ''api.test'', Enabled = True, Quota = 2, PeriodSecs = 60, LastUpdated = 0\<rparr>"

definition limited_limiter :: RateLimiter where
  "limited_limiter = main_limiter\<lparr>dnsConfigMap := [''api.test'' \<mapsto> example_config]\<rparr>"

definition seen_limit :: "go_int \<Rightarrow> time \<Rightarrow> IPLimit" where
  "seen_limit n t =
     \<lparr>ip_count = n, ip_lastSeen = t,
      hostCounts = [''api.test'' \<mapsto> \<lparr>hc_count = n, hc_lastSeen = t\<rparr>]\<rparr>"

definition seen_limiter :: "RateLimiter \<Rightarrow> go_int \<Rightarrow> time \<Rightarrow> RateLimiter" where
  "seen_limiter rl n t = rl\<lparr>ipMap := [''198.51.100.7'' \<mapsto> seen_limit n t]\<rparr>"

definition zero_quota_limiter :: RateLimiter where
  "zero_quota_limiter =
     main_limiter\<lparr>dnsConfigMap := [''api.test'' \<mapsto> example_config\<lparr>Quota := 0\<rparr>]\<rparr>"

definition other_host_limit :: IPLimit where
  "other_host_limit =
     \<lparr>ip_count = 5, ip_lastSeen = 0,
      hostCounts = [''www.test'' \<mapsto> \<lparr>hc_count = 5, hc_lastSeen = 0\<rparr>]\<rparr>"

definition example_entry :: LogEntry where
  "example_entry =
     \<lparr>le_ClientIP = ''192.0.2.5'', le_Hostname = ''api.test'', le_RequestPath = ''/ping'',
      le_BackendID = 1, le_LatencyMS = 3, le_StatusCode = 200, le_IsSuccess = True,
      le_UserAgent = ''curl'', le_FilteredBy = 0, le_Timestamp = 1000000000\<rparr>"

definition rule_of :: "string \<Rightarrow> string \<Rightarrow> FilterRule" where
  "rule_of kind pattern = example_rule\<lparr>MatchType := kind, MatchValue := pattern\<rparr>"

definition example_store :: ConfigStore where
  "example_store =
     \<lparr>dns_rules_query = Some [Scanned (1, ''api.test'')],
      backends_query = (\<lambda>rule_id. Some [Scanned u1, Scanned u2])\<rparr>"

definition example_log_call :: LogRequestCall where
  "example_log_call =
     \<lparr>lr_clientIP = ''192.0.2.5:40000'', lr_hostname = ''api.test'',
      lr_requestPath = ''/legacy/a'', lr_backendID = 1, lr_latencyMS = 3,
      lr_statusCode = 200, lr_isSuccess = True\<rparr>"

definition fail_first :: "nat \<Rightarrow> db_fault \<Rightarrow> nat \<Rightarrow> db_fault" where
  "fail_first n fault k = (if k < n then fault else NoFault)"

definition example_logger :: BufferedLogger where
  "example_logger = \<lparr>buffer = [example_entry], batchSize = 50, flushTime = 5000000000\<rparr>"




section \<open>Properties of the rate limiter\<close>

lemmas limiter_defs =
  RateLimiterMiddleware_def limiting_disabled_def maxRequests_for_def interval_for_def
  store_limit_def store_hostCount_def Let_def

lemmas example_limiter_defs =
  main_limiter_def example_ctx_def example_config_def limited_limiter_def seen_limit_def
  seen_limiter_def is_admin_path_def time_Sub_def maxDuration_def minDuration_def seconds_def

text \<open>
  Claim C3, as the code has it. A request to a host whose configuration exists with
  \<open>enabled = false\<close> passes and leaves the limiter's state unchanged. A host with no
  configuration entry is not exempt: its requests are counted against the limiter's
  default quota and default interval, so that a request to an existing counter inside
  the default interval is rejected with 429 once the count exceeds the default quota.
\<close>

theorem disabled_or_default_limit:
  "(\<forall>config. dnsConfigMap rl (ctx_Hostname c) = Some config \<and> \<not> Enabled config
       \<longrightarrow> RateLimiterMiddleware rl now c = (Next, rl))
   \<and> (\<forall>limit hostCount.
         dnsConfigMap rl (ctx_Hostname c) = None \<and> \<not> is_admin_path (ctx_Path c)
         \<and> ipMap rl (ctx_IP c) = Some limit \<and> hostCounts limit (ctx_Hostname c) = Some hostCount
       \<longrightarrow> fst (RateLimiterMiddleware rl now c) =
             (if time_Sub now (hc_lastSeen hostCount) > defaultInterval rl then Next
              else if sint (hc_count hostCount + 1) > defaultMaxRequests rl
              then Reject 429 rate_limit_message else Next))"
  by (auto simp: limiter_defs)

theorem disabled_or_default_limit_witness:
  "RateLimiterMiddleware
      (main_limiter\<lparr>dnsConfigMap := [''api.test'' \<mapsto> example_config\<lparr>Enabled := False\<rparr>]\<rparr>)
      0 example_ctx
     = (Next, main_limiter\<lparr>dnsConfigMap := [''api.test'' \<mapsto> example_config\<lparr>Enabled := False\<rparr>]\<rparr>)
   \<and> fst (RateLimiterMiddleware (seen_limiter main_limiter 99 0) 1000000000 example_ctx) = Next
   \<and> fst (RateLimiterMiddleware (seen_limiter main_limiter 100 0) 1000000000 example_ctx)
       = Reject 429 rate_limit_message"
  using disabled_or_default_limit
          [of "main_limiter\<lparr>dnsConfigMap := [''api.test'' \<mapsto> example_config\<lparr>Enabled := False\<rparr>]\<rparr>"
              example_ctx 0]
        disabled_or_default_limit [of "seen_limiter main_limiter 99 0" example_ctx 1000000000]
        disabled_or_default_limit [of "seen_limiter main_limiter 100 0" example_ctx 1000000000]
  by (simp add: example_limiter_defs)

text \<open>
  Claim C3 as stated fails: with the limiter of \<open>main\<close> (default quota 100 per minute)
  and no configuration entry for the host, the 101st request inside a minute is rejected.
\<close>

theorem unconfigured_host_limited:
  "dnsConfigMap (seen_limiter main_limiter 100 0) (ctx_Hostname example_ctx) = None
   \<and> fst (RateLimiterMiddleware (seen_limiter main_limiter 100 0) 1000000000 example_ctx)
       = Reject 429 rate_limit_message"
  by (simp add: limiter_defs example_limiter_defs)

text \<open>
  Claim C10. The first request of a client IP that has no entry in the IP map, and the
  first request of a known IP to a host without a per-host counter, always pass; when the
  request is counted (it is not an admin path and the host's limiting is not switched
  off), the counter is initialised to 1 and no quota is consulted, whatever it is.
\<close>

theorem first_request_passes:
  "((ipMap rl (ctx_IP c) = None
      \<or> (\<exists>limit. ipMap rl (ctx_IP c) = Some limit \<and> hostCounts limit (ctx_Hostname c) = None))
     \<longrightarrow> fst (RateLimiterMiddleware rl now c) = Next)
   \<and> (\<not> is_admin_path (ctx_Path c) \<and> \<not> limiting_disabled rl (ctx_Hostname c) \<longrightarrow>
        (ipMap rl (ctx_IP c) = None \<longrightarrow>
           snd (RateLimiterMiddleware rl now c) =
             rl\<lparr>ipMap := (ipMap rl)(ctx_IP c \<mapsto>
                   \<lparr>ip_count = 1, ip_lastSeen = now,
                    hostCounts = [ctx_Hostname c \<mapsto> \<lparr>hc_count = 1, hc_lastSeen = now\<rparr>]\<rparr>)\<rparr>)
        \<and> (\<forall>limit. ipMap rl (ctx_IP c) = Some limit \<and> hostCounts limit (ctx_Hostname c) = None \<longrightarrow>
             snd (RateLimiterMiddleware rl now c) =
               rl\<lparr>ipMap := (ipMap rl)(ctx_IP c \<mapsto>
                     limit\<lparr>ip_count := ip_count limit + 1, ip_lastSeen := now,
                           hostCounts := (hostCounts limit)(ctx_Hostname c \<mapsto>
                              \<lparr>hc_count = 1, hc_lastSeen = now\<rparr>)\<rparr>)\<rparr>))"
  by (auto simp: limiter_defs)

theorem first_request_passes_witness:
  "ipMap zero_quota_limiter (ctx_IP example_ctx) = None
   \<and> \<not> is_admin_path (ctx_Path example_ctx)
   \<and> \<not> limiting_disabled zero_quota_limiter (ctx_Hostname example_ctx)
   \<and> maxRequests_for zero_quota_limiter (ctx_Hostname example_ctx) = 0
   \<and> fst (RateLimiterMiddleware zero_quota_limiter 7 example_ctx) = Next
   \<and> snd (RateLimiterMiddleware zero_quota_limiter 7 example_ctx) =
        zero_quota_limiter\<lparr>ipMap := [''198.51.100.7'' \<mapsto>
           \<lparr>ip_count = 1, ip_lastSeen = 7,
            hostCounts = [''api.test'' \<mapsto> \<lparr>hc_count = 1, hc_lastSeen = 7\<rparr>]\<rparr>]\<rparr>
   \<and> hostCounts other_host_limit (ctx_Hostname example_ctx) = None
   \<and> fst (RateLimiterMiddleware
             (zero_quota_limiter\<lparr>ipMap := [''198.51.100.7'' \<mapsto> other_host_limit]\<rparr>) 7 example_ctx)
       = Next
   \<and> snd (RateLimiterMiddleware
             (zero_quota_limiter\<lparr>ipMap := [''198.51.100.7'' \<mapsto> other_host_limit]\<rparr>) 7 example_ctx)
       = zero_quota_limiter\<lparr>ipMap := [''198.51.100.7'' \<mapsto>
           \<lparr>ip_count = 6, ip_lastSeen = 7,
            hostCounts = [''www.test'' \<mapsto> \<lparr>hc_count = 5, hc_lastSeen = 0\<rparr>,
                          ''api.test'' \<mapsto> \<lparr>hc_count = 1, hc_lastSeen = 7\<rparr>]\<rparr>]\<rparr>"
  using first_request_passes [of zero_quota_limiter example_ctx 7]
        first_request_passes
          [of "zero_quota_limiter\<lparr>ipMap := [''198.51.100.7'' \<mapsto> other_host_limit]\<rparr>" example_ctx 7]
  by (simp add: zero_quota_limiter_def other_host_limit_def example_limiter_defs
      limiting_disabled_def maxRequests_for_def)

text \<open>
  Claim C2, as the code has it. The code keeps no window start: a per-host counter is
  \<open>(count, lastSeen)\<close>, and \<open>lastSeen\<close> is set to \<open>now\<close> by every counted request. For a
  counted request whose per-host counter exists: if the time since \<open>lastSeen\<close> (the
  previous counted request of this client to this host) exceeds the period, the counter
  is reset to \<open>count = 1, lastSeen = now\<close> and the request passes; otherwise \<open>count\<close> is
  incremented, \<open>lastSeen\<close> is set to \<open>now\<close>, and the request is rejected with status 429
  exactly when the new count exceeds the quota.
\<close>

theorem existing_counter_decision:
  "\<not> is_admin_path (ctx_Path c) \<and> \<not> limiting_disabled rl (ctx_Hostname c)
   \<and> ipMap rl (ctx_IP c) = Some limit \<and> hostCounts limit (ctx_Hostname c) = Some hostCount
   \<longrightarrow>
   RateLimiterMiddleware rl now c =
     (let interval = interval_for rl (ctx_Hostname c);
          maxRequests = maxRequests_for rl (ctx_Hostname c);
          observed = (\<lambda>hc. rl\<lparr>ipMap := (ipMap rl)(ctx_IP c \<mapsto>
                              limit\<lparr>ip_count := ip_count limit + 1, ip_lastSeen := now,
                                    hostCounts := (hostCounts limit)(ctx_Hostname c \<mapsto> hc)\<rparr>)\<rparr>)
      in
      if time_Sub now (hc_lastSeen hostCount) > interval
      then (Next, observed \<lparr>hc_count = 1, hc_lastSeen = now\<rparr>)
      else (if sint (hc_count hostCount + 1) > maxRequests
            then Reject 429 rate_limit_message else Next,
            observed \<lparr>hc_count = hc_count hostCount + 1, hc_lastSeen = now\<rparr>))"
  by (auto simp: limiter_defs)

theorem existing_counter_decision_witness:
  "\<not> is_admin_path (ctx_Path example_ctx)
   \<and> \<not> limiting_disabled (seen_limiter limited_limiter 2 40000000000) (ctx_Hostname example_ctx)
   \<and> RateLimiterMiddleware (seen_limiter limited_limiter 2 40000000000) 80000000000 example_ctx
       = (Reject 429 rate_limit_message, seen_limiter limited_limiter 3 80000000000)
   \<and> RateLimiterMiddleware (seen_limiter limited_limiter 2 40000000000) 100000000001 example_ctx
       = (Next, limited_limiter\<lparr>ipMap := [''198.51.100.7'' \<mapsto>
            \<lparr>ip_count = 3, ip_lastSeen = 100000000001,
             hostCounts = [''api.test'' \<mapsto> \<lparr>hc_count = 1, hc_lastSeen = 100000000001\<rparr>]\<rparr>]\<rparr>)"
  using existing_counter_decision
          [of example_ctx "seen_limiter limited_limiter 2 40000000000" "seen_limit 2 40000000000"
              "\<lparr>hc_count = 2, hc_lastSeen = 40000000000\<rparr>" 80000000000]
        existing_counter_decision
          [of example_ctx "seen_limiter limited_limiter 2 40000000000" "seen_limit 2 40000000000"
              "\<lparr>hc_count = 2, hc_lastSeen = 40000000000\<rparr>" 100000000001]
  by (simp add: example_limiter_defs limiting_disabled_def maxRequests_for_def interval_for_def Let_def)

text \<open>
  Claim C2 as stated fails. With quota 2 and period 60 s, requests at 0 s and 40 s open a
  window at 0 s and bring the count to 2. At 80 s more than the period has passed since
  the window start, so the decision the claim describes resets the counter and passes;
  the code sees 40 s since \<open>lastSeen\<close>, increments to 3 and rejects with 429.
\<close>

theorem window_start_not_used:
  "RateLimiterMiddleware limited_limiter 0 example_ctx = (Next, seen_limiter limited_limiter 1 0)
   \<and> RateLimiterMiddleware (seen_limiter limited_limiter 1 0) 40000000000 example_ctx
       = (Next, seen_limiter limited_limiter 2 40000000000)
   \<and> RateLimiterMiddleware (seen_limiter limited_limiter 2 40000000000) 80000000000 example_ctx
       = (Reject 429 rate_limit_message, seen_limiter limited_limiter 3 80000000000)
   \<and> interval_for limited_limiter ''api.test'' = 60000000000
   \<and> maxRequests_for limited_limiter ''api.test'' = 2
   \<and> spec_window_decision 2 60000000000 80000000000 (2, 0) = (Next, (1, 80000000000))"
  by (simp add: limiter_defs example_limiter_defs spec_window_decision_def)

section \<open>Properties of float64 arithmetic\<close>










section \<open>Properties of selectBackend\<close>

















text \<open>
  The priorities are compared as rounded \<open>float64\<close> values. With weights 16, 4 and 3 and
  the first backend selected 4 times, the exact quotients \<open>16/3 - 4\<close> and \<open>4/3 - 0\<close> are
  equal, but the rounded priority of the first backend is one unit in the last place
  smaller, so the loop selects the second backend.
\<close>

lemma rounded_priorities_example:
  "priority_of 3 [''http://a'' \<mapsto> 4] (backend_of 1 ''http://a'' 16)
     = Finite (6004799503160660 / 4503599627370496)
   \<and> priority_of 3 [''http://a'' \<mapsto> 4] (backend_of 2 ''http://b'' 4)
     = Finite (6004799503160661 / 4503599627370496)
   \<and> (rat_of_int 16 / 3 - 4 = 4 / 3 - 0)"
  by (simp add: priority_of_def ratio_of_def count_of_def backend_of_def) code_simp

lemma rounded_priorities_selection:
  "fst (select_loop 3 [''http://a'' \<mapsto> 4]
          [backend_of 1 ''http://a'' 16, backend_of 2 ''http://b'' 4, backend_of 3 ''http://c'' 3]
          0 (None, Finite 0)) = Some 1"
  by (simp add: priority_of_def ratio_of_def count_of_def backend_of_def Let_def) code_simp


section \<open>Properties of the filter engine\<close>

lemmas match_defs =
  matchesRule_def matchesIP_def matchesPath_def matchesDNS_def matchesWildcard_def
  strings_Contains_def strings_HasPrefix_def strings_HasSuffix_def
  FilterMatchTypeIP_def FilterMatchTypePath_def FilterMatchTypeDNS_def

lemma star_wrapped:
  "butlast (tl (CHR ''*'' # X @ [CHR ''*''])) = X"
  "suffix [CHR ''*''] (CHR ''*'' # X @ [CHR ''*''])"
  "sublist [CHR ''*''] (CHR ''*'' # X)"
  "CHR ''*'' # X @ [CHR ''*''] \<noteq> [CHR ''*'']"
  by (simp_all add: butlast_append suffix_def sublist_Cons_right)

lemma suffix_star_iff: "X \<noteq> [] \<Longrightarrow> suffix [CHR ''*''] X \<longleftrightarrow> last X = CHR ''*''"
  by (metis append_butlast_last_id last_snoc suffix_def suffix_snoc snoc_suffix_snoc suffix_bot.extremum)

lemma sublist_star_append: "sublist [CHR ''*''] (X @ [CHR ''*''])"
  by (metis sublist_appendI sublist_order.order_refl append_Nil2 sublist_def append.assoc)

text \<open>
  Claim C6. For a rule of kind \<open>ip\<close>, \<open>path\<close> or \<open>dns\<close> with match value \<open>V\<close>, evaluated
  against the subject \<open>S\<close> of its kind (client IP, request path, host): if \<open>V\<close> contains
  \<open>/\<close> and the kind is \<open>ip\<close>, the rule matches iff \<open>V\<close> parses as a CIDR block, \<open>S\<close> parses
  as an IP address and the block contains it; else if \<open>V\<close> contains \<open>*\<close>, then \<open>*\<close> alone
  always matches, \<open>*X*\<close> matches iff \<open>S\<close> contains \<open>X\<close>, \<open>*X\<close> (not ending in \<open>*\<close>) matches
  iff \<open>S\<close> ends with \<open>X\<close>, and \<open>X*\<close> (not beginning with \<open>*\<close>) matches iff \<open>S\<close> begins with
  \<open>X\<close>; else if \<open>V\<close> ends with \<open>/\<close> and the kind is \<open>path\<close>, the rule matches iff \<open>S\<close> begins
  with \<open>V\<close>; otherwise it matches iff \<open>S\<close> contains \<open>V\<close>.
\<close>

theorem filter_pattern_semantics:
  "MatchType rule \<in> {FilterMatchTypeIP, FilterMatchTypePath, FilterMatchTypeDNS} \<longrightarrow>
   (let V = MatchValue rule;
        S = (if MatchType rule = FilterMatchTypeIP then clientIP
             else if MatchType rule = FilterMatchTypePath then requestPath
             else hostname);
        matches = matchesRule lib rule clientIP hostname requestPath
    in
    if strings_Contains V ''/'' \<and> MatchType rule = FilterMatchTypeIP then
      matches = (case net_ParseCIDR lib V of
                   None \<Rightarrow> False
                 | Some ipNet \<Rightarrow>
                     (case net_ParseIP lib S of
                        None \<Rightarrow> False
                      | Some ip \<Rightarrow> IPNet_Contains lib ipNet ip))
    else if strings_Contains V ''*'' then
      (V = ''*'' \<longrightarrow> matches)
      \<and> (\<forall>X. V = ''*'' @ X @ ''*'' \<longrightarrow> matches = strings_Contains S X)
      \<and> (\<forall>X. V = ''*'' @ X \<and> X \<noteq> [] \<and> last X \<noteq> CHR ''*''
             \<longrightarrow> matches = strings_HasSuffix S X)
      \<and> (\<forall>X. V = X @ ''*'' \<and> X \<noteq> [] \<and> hd X \<noteq> CHR ''*''
             \<longrightarrow> matches = strings_HasPrefix S X)
    else if strings_HasSuffix V ''/'' \<and> MatchType rule = FilterMatchTypePath then
      matches = strings_HasPrefix S V
    else matches = strings_Contains S V)"
proof -
  have wild: "(V = ''*'' \<longrightarrow> matchesWildcard V S)
      \<and> (\<forall>X. V = ''*'' @ X @ ''*'' \<longrightarrow> matchesWildcard V S = strings_Contains S X)
      \<and> (\<forall>X. V = ''*'' @ X \<and> X \<noteq> [] \<and> last X \<noteq> CHR ''*''
             \<longrightarrow> matchesWildcard V S = strings_HasSuffix S X)
      \<and> (\<forall>X. V = X @ ''*'' \<and> X \<noteq> [] \<and> hd X \<noteq> CHR ''*''
             \<longrightarrow> matchesWildcard V S = strings_HasPrefix S X)" for V S
  proof (intro conjI allI impI)
    show "V = ''*'' \<Longrightarrow> matchesWildcard V S" by (simp add: matchesWildcard_def)
  next
    fix X assume "V = ''*'' @ X @ ''*''"
    then show "matchesWildcard V S = strings_Contains S X"
      by (simp add: matchesWildcard_def strings_HasPrefix_def strings_HasSuffix_def
          strings_Contains_def star_wrapped)
  next
    fix X assume a: "V = ''*'' @ X \<and> X \<noteq> [] \<and> last X \<noteq> CHR ''*''"
    then have "\<not> suffix [CHR ''*''] (CHR ''*'' # X)"
      using suffix_star_iff[of "CHR ''*'' # X"] by simp
    with a show "matchesWildcard V S = strings_HasSuffix S X"
      by (simp add: matchesWildcard_def strings_HasPrefix_def strings_HasSuffix_def)
  next
    fix X assume a: "V = X @ ''*'' \<and> X \<noteq> [] \<and> hd X \<noteq> CHR ''*''"
    then obtain x xs where X: "X = x # xs" "x \<noteq> CHR ''*''" by (cases X) auto
    have "suffix [CHR ''*''] (X @ [CHR ''*''])" by (simp add: suffix_def)
    with a X show "matchesWildcard V S = strings_HasPrefix S X"
      by (simp add: matchesWildcard_def strings_HasPrefix_def strings_HasSuffix_def butlast_append)
  qed
  show ?thesis
  proof (intro impI)
    assume kind: "MatchType rule \<in> {FilterMatchTypeIP, FilterMatchTypePath, FilterMatchTypeDNS}"
    define V where "V = MatchValue rule"
    define S where "S = (if MatchType rule = FilterMatchTypeIP then clientIP
             else if MatchType rule = FilterMatchTypePath then requestPath
             else hostname)"
    define matches where "matches = matchesRule lib rule clientIP hostname requestPath"
    have d: "matches =
       (if strings_Contains V ''/'' \<and> MatchType rule = FilterMatchTypeIP then
          (case net_ParseCIDR lib V of
             None \<Rightarrow> False
           | Some ipNet \<Rightarrow>
               (case net_ParseIP lib S of
                  None \<Rightarrow> False
                | Some ip \<Rightarrow> IPNet_Contains lib ipNet ip))
        else if strings_Contains V ''*'' then matchesWildcard V S
        else if strings_HasSuffix V ''/'' \<and> MatchType rule = FilterMatchTypePath
          then strings_HasPrefix S V
        else strings_Contains S V)"
      using kind
      unfolding matches_def V_def S_def matchesRule_def matchesIP_def matchesPath_def
        matchesDNS_def FilterMatchTypeIP_def FilterMatchTypePath_def FilterMatchTypeDNS_def
      by (auto split: option.splits)
    have "if strings_Contains V ''/'' \<and> MatchType rule = FilterMatchTypeIP then
      matches = (case net_ParseCIDR lib V of
                   None \<Rightarrow> False
                 | Some ipNet \<Rightarrow>
                     (case net_ParseIP lib S of
                        None \<Rightarrow> False
                      | Some ip \<Rightarrow> IPNet_Contains lib ipNet ip))
    else if strings_Contains V ''*'' then
      (V = ''*'' \<longrightarrow> matches)
      \<and> (\<forall>X. V = ''*'' @ X @ ''*'' \<longrightarrow> matches = strings_Contains S X)
      \<and> (\<forall>X. V = ''*'' @ X \<and> X \<noteq> [] \<and> last X \<noteq> CHR ''*''
             \<longrightarrow> matches = strings_HasSuffix S X)
      \<and> (\<forall>X. V = X @ ''*'' \<and> X \<noteq> [] \<and> hd X \<noteq> CHR ''*''
             \<longrightarrow> matches = strings_HasPrefix S X)
    else if strings_HasSuffix V ''/'' \<and> MatchType rule = FilterMatchTypePath then
      matches = strings_HasPrefix S V
    else matches = strings_Contains S V"
    proof (cases "strings_Contains V ''/'' \<and> MatchType rule = FilterMatchTypeIP")
      case True
      then show ?thesis using d by simp
    next
      case c1: False
      show ?thesis
      proof (cases "strings_Contains V ''*''")
        case True
        with c1 d have m: "matches = matchesWildcard V S" by auto
        have "(V = ''*'' \<longrightarrow> matches)
          \<and> (\<forall>X. V = ''*'' @ X @ ''*'' \<longrightarrow> matches = strings_Contains S X)
          \<and> (\<forall>X. V = ''*'' @ X \<and> X \<noteq> [] \<and> last X \<noteq> CHR ''*''
                 \<longrightarrow> matches = strings_HasSuffix S X)
          \<and> (\<forall>X. V = X @ ''*'' \<and> X \<noteq> [] \<and> hd X \<noteq> CHR ''*''
                 \<longrightarrow> matches = strings_HasPrefix S X)"
          unfolding m by (rule wild)
        then show ?thesis using c1 True by (simp only: if_True if_False)
      next
        case False
        with c1 d show ?thesis by auto
      qed
    qed
    then show "let V = MatchValue rule;
        S = (if MatchType rule = FilterMatchTypeIP then clientIP
             else if MatchType rule = FilterMatchTypePath then requestPath
             else hostname);
        matches = matchesRule lib rule clientIP hostname requestPath
    in
    if strings_Contains V ''/'' \<and> MatchType rule = FilterMatchTypeIP then
      matches = (case net_ParseCIDR lib V of
                   None \<Rightarrow> False
                 | Some ipNet \<Rightarrow>
                     (case net_ParseIP lib S of
                        None \<Rightarrow> False
                      | Some ip \<Rightarrow> IPNet_Contains lib ipNet ip))
    else if strings_Contains V ''*'' then
      (V = ''*'' \<longrightarrow> matches)
      \<and> (\<forall>X. V = ''*'' @ X @ ''*'' \<longrightarrow> matches = strings_Contains S X)
      \<and> (\<forall>X. V = ''*'' @ X \<and> X \<noteq> [] \<and> last X \<noteq> CHR ''*''
             \<longrightarrow> matches = strings_HasSuffix S X)
      \<and> (\<forall>X. V = X @ ''*'' \<and> X \<noteq> [] \<and> hd X \<noteq> CHR ''*''
             \<longrightarrow> matches = strings_HasPrefix S X)
    else if strings_HasSuffix V ''/'' \<and> MatchType rule = FilterMatchTypePath then
      matches = strings_HasPrefix S V
    else matches = strings_Contains S V"
      unfolding Let_def V_def S_def matches_def .
  qed
qed

theorem filter_pattern_semantics_witness:
  "MatchType (rule_of ''ip'' ''10.0.0.0/8'')
      \<in> {FilterMatchTypeIP, FilterMatchTypePath, FilterMatchTypeDNS}
   \<and> matchesRule example_lib (rule_of ''ip'' ''10.0.0.0/8'') ''10.1.2.3'' ''h'' ''/p''
   \<and> \<not> matchesRule example_lib (rule_of ''ip'' ''10.0.0.0/8'') ''192.168.1.1'' ''h'' ''/p''
   \<and> matchesRule example_lib (rule_of ''path'' ''*admin*'') ''c'' ''h'' ''/admin/login''
   \<and> matchesRule example_lib (rule_of ''path'' ''/api/'') ''c'' ''h'' ''/api/users''
   \<and> \<not> matchesRule example_lib (rule_of ''path'' ''/api/'') ''c'' ''h'' ''/apiv2/users''
   \<and> matchesRule example_lib (rule_of ''dns'' ''*.example.com'') ''c'' ''api.example.com'' ''/p''
   \<and> matchesRule example_lib (rule_of ''dns'' ''api.*'') ''c'' ''api.example.com'' ''/p''
   \<and> matchesRule example_lib (rule_of ''dns'' ''example'') ''c'' ''my.example.org'' ''/p''"
proof -
  note kinds = FilterMatchTypeIP_def FilterMatchTypePath_def FilterMatchTypeDNS_def
  note ev = rule_of_def example_rule_def kinds Let_def
  have k: "MatchType (rule_of ''ip'' ''10.0.0.0/8'')
      \<in> {FilterMatchTypeIP, FilterMatchTypePath, FilterMatchTypeDNS}"
    by (simp add: ev)
  have tests:
    "strings_Contains ''10.0.0.0/8'' ''/''"
    "strings_Contains ''*admin*'' ''*''"
    "strings_Contains ''*.example.com'' ''*''"
    "strings_Contains ''api.*'' ''*''"
    "\<not> strings_Contains ''/api/'' ''*''"
    "strings_HasSuffix ''/api/'' ''/''"
    "\<not> strings_Contains ''example'' ''*''"
    by code_simp+
  have subjects:
    "strings_Contains ''/admin/login'' ''admin''"
    "strings_HasPrefix ''/api/users'' ''/api/''"
    "\<not> strings_HasPrefix ''/apiv2/users'' ''/api/''"
    "strings_HasSuffix ''api.example.com'' ''.example.com''"
    "strings_HasPrefix ''api.example.com'' ''api.''"
    "strings_Contains ''my.example.org'' ''example''"
    by code_simp+
  have cidr_in: "(case net_ParseCIDR example_lib ''10.0.0.0/8'' of
                   None \<Rightarrow> False
                 | Some ipNet \<Rightarrow>
                     (case net_ParseIP example_lib ''10.1.2.3'' of
                        None \<Rightarrow> False
                      | Some ip \<Rightarrow> IPNet_Contains example_lib ipNet ip))"
    by code_simp
  have cidr_out: "\<not> (case net_ParseCIDR example_lib ''10.0.0.0/8'' of
                   None \<Rightarrow> False
                 | Some ipNet \<Rightarrow>
                     (case net_ParseIP example_lib ''192.168.1.1'' of
                        None \<Rightarrow> False
                      | Some ip \<Rightarrow> IPNet_Contains example_lib ipNet ip))"
    by code_simp
  have 1: "matchesRule example_lib (rule_of ''ip'' ''10.0.0.0/8'') ''10.1.2.3'' ''h'' ''/p''"
    using filter_pattern_semantics
            [of "rule_of ''ip'' ''10.0.0.0/8''" "''10.1.2.3''" "''/p''" "''h''" example_lib]
          cidr_in
    by (simp add: ev tests)
  have 2: "\<not> matchesRule example_lib (rule_of ''ip'' ''10.0.0.0/8'') ''192.168.1.1'' ''h'' ''/p''"
    using filter_pattern_semantics
            [of "rule_of ''ip'' ''10.0.0.0/8''" "''192.168.1.1''" "''/p''" "''h''" example_lib]
          cidr_out
    by (simp add: ev tests)
  have "\<forall>X. ''*admin*'' = ''*'' @ X @ ''*'' \<longrightarrow>
          matchesRule example_lib (rule_of ''path'' ''*admin*'') ''c'' ''h'' ''/admin/login''
            = strings_Contains ''/admin/login'' X"
    using filter_pattern_semantics
            [of "rule_of ''path'' ''*admin*''" "''c''" "''/admin/login''" "''h''" example_lib]
    by (simp add: ev tests)
  from this[THEN spec, of "''admin''"]
  have 3: "matchesRule example_lib (rule_of ''path'' ''*admin*'') ''c'' ''h'' ''/admin/login''"
    by (simp add: subjects)
  have 4: "matchesRule example_lib (rule_of ''path'' ''/api/'') ''c'' ''h'' ''/api/users''"
    using filter_pattern_semantics
            [of "rule_of ''path'' ''/api/''" "''c''" "''/api/users''" "''h''" example_lib]
    by (simp add: ev tests subjects)
  have 5: "\<not> matchesRule example_lib (rule_of ''path'' ''/api/'') ''c'' ''h'' ''/apiv2/users''"
    using filter_pattern_semantics
            [of "rule_of ''path'' ''/api/''" "''c''" "''/apiv2/users''" "''h''" example_lib]
    by (simp add: ev tests subjects)
  have "\<forall>X. ''*.example.com'' = ''*'' @ X \<and> X \<noteq> [] \<and> last X \<noteq> CHR ''*'' \<longrightarrow>
          matchesRule example_lib (rule_of ''dns'' ''*.example.com'') ''c'' ''api.example.com'' ''/p''
            = strings_HasSuffix ''api.example.com'' X"
    using filter_pattern_semantics
            [of "rule_of ''dns'' ''*.example.com''" "''c''" "''/p''" "''api.example.com''" example_lib]
    by (simp add: ev tests)
  from this[THEN spec, of "''.example.com''"]
  have 6: "matchesRule example_lib (rule_of ''dns'' ''*.example.com'') ''c'' ''api.example.com'' ''/p''"
    by (simp add: subjects)
  have "\<forall>X. ''api.*'' = X @ ''*'' \<and> X \<noteq> [] \<and> hd X \<noteq> CHR ''*'' \<longrightarrow>
          matchesRule example_lib (rule_of ''dns'' ''api.*'') ''c'' ''api.example.com'' ''/p''
            = strings_HasPrefix ''api.example.com'' X"
    using filter_pattern_semantics
            [of "rule_of ''dns'' ''api.*''" "''c''" "''/p''" "''api.example.com''" example_lib]
    by (simp add: ev tests)
  from this[THEN spec, of "''api.''"]
  have 7: "matchesRule example_lib (rule_of ''dns'' ''api.*'') ''c'' ''api.example.com'' ''/p''"
    by (simp add: subjects)
  have 8: "matchesRule example_lib (rule_of ''dns'' ''example'') ''c'' ''my.example.org'' ''/p''"
    using filter_pattern_semantics
            [of "rule_of ''dns'' ''example''" "''c''" "''/p''" "''my.example.org''" example_lib]
    by (simp add: ev tests subjects)
  from k 1 2 3 4 5 6 7 8 show ?thesis by blast
qed

section \<open>Properties of the request handler\<close>

lemma FilterRequest_loop_find:
  "FilterRequest_loop lib rules clientIP hostname requestPath userAgent =
     (case find (\<lambda>rule. matchesRule lib rule clientIP hostname requestPath) rules of
        None \<Rightarrow>
          (\<lparr>Filtered = False, Rule = zero_FilterRule, res_StatusCode = 0, Response = [],
            RedirectURL = []\<rparr>, [])
      | Some rule \<Rightarrow>
          (\<lparr>Filtered = True, Rule = rule, res_StatusCode = getStatusCodeForAction rule,
            Response = getResponseForAction rule, RedirectURL = getRedirectURLForAction rule\<rparr>,
           [logFilteredRequest clientIP hostname requestPath userAgent rule]))"
  by (induction rules) simp_all

lemma proxyHandler_frame:
  "proxyHandler lib (g\<lparr>filterRuleCache := rules\<rparr>) r upstream latencyMS
     = map_sum id (\<lambda>(out, g'). (out, g'\<lparr>filterRuleCache := rules\<rparr>))
         (proxyHandler lib g r upstream latencyMS)"
  by (simp add: proxyHandler_def Let_def split: option.splits sum.splits prod.splits upstream_result.splits)

lemma proxyHandler_no_filter_logs:
  "proxyHandler lib g r upstream latencyMS = Inr (out, g') \<Longrightarrow> filter_logs out = []"
  by (auto simp: proxyHandler_def Let_def
      split: option.splits sum.splits prod.splits upstream_result.splits if_splits)

text \<open>
  Claim C1, as the code has it. \<open>proxyHandler\<close> does not evaluate the filter engine: it
  goes from the host straight to the routing lookup, its reply, its forwarding and its
  request log are the same whatever rules the filter cache holds, and it emits no
  filter-log entry. The filter engine on its own, \<open>FilterRequest\<close>, reports for a request
  the first rule of the cache, in cache order, that matches it, with the status, body
  and redirect URL of that rule's action, and starts one filter-log entry for that rule;
  when no rule matches it reports an unfiltered result and logs nothing.
\<close>

theorem proxyHandler_without_filter:
  "proxyHandler lib (g\<lparr>filterRuleCache := rules\<rparr>) r upstream latencyMS
     = map_sum id (\<lambda>(out, g'). (out, g'\<lparr>filterRuleCache := rules\<rparr>))
         (proxyHandler lib g r upstream latencyMS)
   \<and> (\<forall>out g'. proxyHandler lib g r upstream latencyMS = Inr (out, g') \<longrightarrow> filter_logs out = [])
   \<and> FilterRequest lib rules r =
       (case find (\<lambda>rule. matchesRule lib rule (getClientIP lib r) (req_Host r) (req_Path r)) rules of
          None \<Rightarrow>
            (\<lparr>Filtered = False, Rule = zero_FilterRule, res_StatusCode = 0, Response = [],
              RedirectURL = []\<rparr>, [])
        | Some rule \<Rightarrow>
            (\<lparr>Filtered = True, Rule = rule, res_StatusCode = getStatusCodeForAction rule,
              Response = getResponseForAction rule, RedirectURL = getRedirectURLForAction rule\<rparr>,
             [logFilteredRequest (getClientIP lib r) (req_Host r) (req_Path r)
                (hdr_UserAgent r) rule]))"
  using proxyHandler_frame proxyHandler_no_filter_logs
  by (auto simp: FilterRequest_def FilterRequest_loop_find)

lemma example_forwarded:
  "proxyHandler example_lib example_globals example_request (UpstreamResponse 200) 3
     = Inr (\<lparr>reply = FromBackend 200, forwarded_to = Some (u1, ''u1''),
             log_calls = [example_log_call], filter_logs = []\<rparr>,
            example_globals\<lparr>backendCountMap := [''http://u1'' \<mapsto> 1]\<rparr>)"
  by (simp add: proxyHandler_def Let_def example_globals_def example_request_def selectBackend_def
      u1_def example_lib_def simple_url_Parse_def increment_def count_of_def example_log_call_def)

lemma example_filtered:
  "FilterRequest example_lib [example_rule] example_request
     = (\<lparr>Filtered = True, Rule = example_rule, res_StatusCode = 302, Response = [],
         RedirectURL = ''https://new.example/legacy''\<rparr>,
        [\<lparr>fl_ClientIP = ''192.0.2.5'', fl_Hostname = ''api.test'', fl_RequestPath = ''/legacy/a'',
          fl_UserAgent = ''curl'', fl_FilterID = 7, fl_MatchType = ''path'',
          fl_MatchValue = ''/legacy*'', fl_ActionType = ''redirect'', fl_StatusCode = 302\<rparr>])"
  by code_simp

text \<open>
  Claim C1 as stated fails: with an active rule that matches the request
  (\<open>/legacy*\<close> against \<open>/legacy/a\<close>) in the filter cache, the handler still selects the
  backend, forwards the request, passes the backend's 200 through and writes a request
  log, and no filter log.
\<close>

theorem matched_request_forwarded:
  "Filtered (fst (FilterRequest example_lib (filterRuleCache example_globals) example_request))
   \<and> proxyHandler example_lib example_globals example_request (UpstreamResponse 200) 3
     = Inr (\<lparr>reply = FromBackend 200, forwarded_to = Some (u1, ''u1''),
             log_calls = [example_log_call], filter_logs = []\<rparr>,
            example_globals\<lparr>backendCountMap := [''http://u1'' \<mapsto> 1]\<rparr>)"
  using example_forwarded example_filtered by (simp add: example_globals_def)

theorem proxyHandler_without_filter_witness:
  "proxyHandler example_lib (example_globals\<lparr>filterRuleCache := []\<rparr>) example_request
       (UpstreamResponse 200) 3
     = Inr (\<lparr>reply = FromBackend 200, forwarded_to = Some (u1, ''u1''),
             log_calls = [example_log_call], filter_logs = []\<rparr>,
            example_globals\<lparr>backendCountMap := [''http://u1'' \<mapsto> 1], filterRuleCache := []\<rparr>)
   \<and> filter_logs \<lparr>reply = FromBackend 200, forwarded_to = Some (u1, ''u1''),
             log_calls = [example_log_call], filter_logs = []\<rparr> = []
   \<and> FilterRequest example_lib [] example_request =
        (\<lparr>Filtered = False, Rule = zero_FilterRule, res_StatusCode = 0, Response = [],
              RedirectURL = []\<rparr>, [])"
  using proxyHandler_without_filter
          [where lib = example_lib and g = example_globals and rules = "[]"
             and r = example_request and upstream = "UpstreamResponse 200" and latencyMS = 3]
        example_forwarded
  by simp

text \<open>
  Claim C9, as the code has it. For a request whose host has no entry, or an empty
  list, in the routing cache, the handler answers 410 Gone with the message
  \<open>No backends found for this hostname\<close> followed by the host; it selects no backend,
  forwards nothing and emits no request-log entry.
\<close>

theorem no_backends_gone:
  "(dnsRuleCache g (req_Host r) = None \<or> dnsRuleCache g (req_Host r) = Some [])
   \<longrightarrow> proxyHandler lib g r upstream latencyMS =
         Inr (\<lparr>reply = ProxyReply 410 (''No backends found for this hostname '' @ req_Host r),
               forwarded_to = None, log_calls = [], filter_logs = []\<rparr>, g)"
  by (auto simp: proxyHandler_def Let_def)

theorem no_backends_gone_witness:
  "dnsRuleCache (example_globals\<lparr>dnsRuleCache := [''api.test'' \<mapsto> []]\<rparr>) (req_Host example_request)
      = Some []
   \<and> proxyHandler example_lib (example_globals\<lparr>dnsRuleCache := [''api.test'' \<mapsto> []]\<rparr>)
         example_request (UpstreamResponse 200) 0 =
         Inr (\<lparr>reply = ProxyReply 410 ''No backends found for this hostname api.test'',
               forwarded_to = None, log_calls = [], filter_logs = []\<rparr>,
              example_globals\<lparr>dnsRuleCache := [''api.test'' \<mapsto> []]\<rparr>)"
  using no_backends_gone [of "example_globals\<lparr>dnsRuleCache := [''api.test'' \<mapsto> []]\<rparr>"
                             example_request example_lib "UpstreamResponse 200" 0]
  by (simp add: example_globals_def example_request_def)

text \<open>
  Claim C9 as stated fails: a request for the unknown host \<open>nope.test\<close> gets the 410 and
  no call of \<open>logRequest\<close> is made, so no entry with \<open>backend_id = 0\<close> is emitted.
\<close>

theorem unknown_host_not_logged:
  "dnsRuleCache example_globals ''nope.test'' = None
   \<and> proxyHandler example_lib example_globals (example_request\<lparr>req_Host := ''nope.test''\<rparr>)
         UpstreamError 0 =
         Inr (\<lparr>reply = ProxyReply 410 ''No backends found for this hostname nope.test'',
               forwarded_to = None, log_calls = [], filter_logs = []\<rparr>, example_globals)"
  by (simp add: proxyHandler_def Let_def example_globals_def example_request_def)

section \<open>Properties of refreshCache\<close>

lemma refreshCache_keeps_counts:
  "backendCountMap (refreshCache db g) = backendCountMap g"
  by (simp add: refreshCache_def split: option.splits)

text \<open>
  Claim C4 against the code. \<open>refreshCache\<close> opens with the comment
  \<open>Reset backend count map before refreshing\<close> and never writes \<open>backendCountMap\<close>: after
  a refresh that loads the rule of \<open>api.test\<close> with both backends, the count 5 of
  \<open>http://u1\<close> is still 5, not zero.
\<close>

theorem refreshCache_counts_survive:
  "backendCountMap
     (refreshCache example_store (example_globals\<lparr>backendCountMap := [''http://u1'' \<mapsto> 5]\<rparr>))
     ''http://u1'' = Some 5
   \<and> dnsRuleCache
     (refreshCache example_store (example_globals\<lparr>backendCountMap := [''http://u1'' \<mapsto> 5]\<rparr>))
     ''api.test'' = Some [u1, u2]"
  by (simp add: refreshCache_def example_store_def example_globals_def u1_def u2_def)

section \<open>Properties of the log sink\<close>

lemma batchInsert_outcome:
  "batchInsert table entries fault =
     (if insert_fails entries fault then (Inl (insert_error entries fault), table)
      else (Inr (), table @ map row_of_entry entries))"
  by (cases fault) (simp_all add: batchInsert_def insert_fails_def insert_error_def)

lemma writeToDatabase_from_3:
  "writeToDatabase_from faults entries 3 table = (table, [])"
  by (simp add: writeToDatabase_from.simps[of _ _ 3] maxRetries_def)

lemma writeToDatabase_from_2:
  "writeToDatabase_from faults entries 2 table =
     (if insert_fails entries (faults 2)
      then (table, [Sleep 200000000, BatchInsertCall,
                    LogAttemptFailed 3 (insert_error entries (faults 2)),
                    LogGaveUp (length entries) 3 (insert_error entries (faults 2))])
      else (table @ map row_of_entry entries,
            [Sleep 200000000, BatchInsertCall, LogWrote (length entries)]))"
  by (simp add: writeToDatabase_from.simps[of _ _ 2] writeToDatabase_from_3
      batchInsert_outcome maxRetries_def baseDelay_def Let_def)

lemma writeToDatabase_from_1:
  "writeToDatabase_from faults entries (Suc 0) table =
     (if insert_fails entries (faults 1)
      then (case writeToDatabase_from faults entries 2 table of
              (table', later) \<Rightarrow>
                (table', [Sleep 100000000, BatchInsertCall,
                          LogAttemptFailed 2 (insert_error entries (faults 1))] @ later))
      else (table @ map row_of_entry entries,
            [Sleep 100000000, BatchInsertCall, LogWrote (length entries)]))"
  by (simp add: writeToDatabase_from.simps[of _ _ "Suc 0"] numeral_2_eq_2
      batchInsert_outcome maxRetries_def baseDelay_def Let_def)

lemma writeToDatabase_0:
  "writeToDatabase faults entries table =
     (if insert_fails entries (faults 0)
      then (case writeToDatabase_from faults entries (Suc 0) table of
              (table', later) \<Rightarrow>
                (table', [BatchInsertCall,
                          LogAttemptFailed 1 (insert_error entries (faults 0))] @ later))
      else (table @ map row_of_entry entries, [BatchInsertCall, LogWrote (length entries)]))"
  by (simp add: writeToDatabase_def writeToDatabase_from.simps[of _ _ 0]
      batchInsert_outcome maxRetries_def baseDelay_def Let_def)

text \<open>
  Claim C8. A flush takes the batch out of the buffer and attempts the transactional
  batch write at most 3 times, sleeping 100 ms before the second attempt and 200 ms
  before the third (100 ms times 2 to the power of the retry's index minus one). The
  first attempt that succeeds appends the batch to the table once and ends the flush. If
  all three attempts fail, the table is unchanged, the last log line reports the dropped
  batch, and the batch is gone from the buffer, so it is never written later: every
  submitted entry is persisted at most once.
\<close>

theorem writeToDatabase_retries:
  "(let fails = (\<lambda>k. insert_fails entries (faults k));
        err = (\<lambda>k. insert_error entries (faults k));
        rows = map row_of_entry entries;
        n = length entries
    in
      (\<not> fails 0 \<longrightarrow>
         writeToDatabase faults entries table = (table @ rows, [BatchInsertCall, LogWrote n]))
    \<and> (fails 0 \<and> \<not> fails 1 \<longrightarrow>
         writeToDatabase faults entries table =
           (table @ rows,
            [BatchInsertCall, LogAttemptFailed 1 (err 0),
             Sleep 100000000, BatchInsertCall, LogWrote n]))
    \<and> (fails 0 \<and> fails 1 \<and> \<not> fails 2 \<longrightarrow>
         writeToDatabase faults entries table =
           (table @ rows,
            [BatchInsertCall, LogAttemptFailed 1 (err 0),
             Sleep 100000000, BatchInsertCall, LogAttemptFailed 2 (err 1),
             Sleep 200000000, BatchInsertCall, LogWrote n]))
    \<and> (fails 0 \<and> fails 1 \<and> fails 2 \<longrightarrow>
         writeToDatabase faults entries table =
           (table,
            [BatchInsertCall, LogAttemptFailed 1 (err 0),
             Sleep 100000000, BatchInsertCall, LogAttemptFailed 2 (err 1),
             Sleep 200000000, BatchInsertCall, LogAttemptFailed 3 (err 2),
             LogGaveUp n 3 (err 2)])))
   \<and> (buffer bl \<noteq> [] \<longrightarrow>
        flush faults bl table = (bl\<lparr>buffer := []\<rparr>, writeToDatabase faults (buffer bl) table))"
  by (simp add: Let_def writeToDatabase_0 writeToDatabase_from_1 writeToDatabase_from_2 flush_def
      split: prod.splits)

lemma example_faults:
  "insert_fails [example_entry] (ExecFails 0)" "\<not> insert_fails [example_entry] NoFault"
  "insert_error [example_entry] (ExecFails 0) = ''failed to execute insert''"
  by (simp_all add: insert_fails_def insert_error_def batchInsert_def)

theorem writeToDatabase_retries_witness:
  "writeToDatabase (fail_first 0 (ExecFails 0)) [example_entry] [] =
     ([row_of_entry example_entry], [BatchInsertCall, LogWrote 1])
   \<and> writeToDatabase (fail_first 1 (ExecFails 0)) [example_entry] [] =
     ([row_of_entry example_entry],
      [BatchInsertCall, LogAttemptFailed 1 ''failed to execute insert'',
       Sleep 100000000, BatchInsertCall, LogWrote 1])
   \<and> writeToDatabase (fail_first 2 (ExecFails 0)) [example_entry] [] =
     ([row_of_entry example_entry],
      [BatchInsertCall, LogAttemptFailed 1 ''failed to execute insert'',
       Sleep 100000000, BatchInsertCall, LogAttemptFailed 2 ''failed to execute insert'',
       Sleep 200000000, BatchInsertCall, LogWrote 1])
   \<and> writeToDatabase (fail_first 3 (ExecFails 0)) [example_entry] [] =
     ([],
      [BatchInsertCall, LogAttemptFailed 1 ''failed to execute insert'',
       Sleep 100000000, BatchInsertCall, LogAttemptFailed 2 ''failed to execute insert'',
       Sleep 200000000, BatchInsertCall, LogAttemptFailed 3 ''failed to execute insert'',
       LogGaveUp 1 3 ''failed to execute insert''])
   \<and> buffer example_logger \<noteq> []
   \<and> flush (fail_first 3 (ExecFails 0)) example_logger [] =
       (example_logger\<lparr>buffer := []\<rparr>,
        writeToDatabase (fail_first 3 (ExecFails 0)) (buffer example_logger) [])"
  using writeToDatabase_retries
          [where faults = "fail_first 0 (ExecFails 0)" and entries = "[example_entry]"
             and table = "[]" and bl = example_logger]
        writeToDatabase_retries
          [where faults = "fail_first 1 (ExecFails 0)" and entries = "[example_entry]"
             and table = "[]" and bl = example_logger]
        writeToDatabase_retries
          [where faults = "fail_first 2 (ExecFails 0)" and entries = "[example_entry]"
             and table = "[]" and bl = example_logger]
        writeToDatabase_retries
          [where faults = "fail_first 3 (ExecFails 0)" and entries = "[example_entry]"
             and table = "[]" and bl = example_logger]
  by (simp add: Let_def fail_first_def example_faults example_logger_def)

section \<open>Properties of the retention sweeper\<close>

lemma effective_retention_eq: "(if days \<le> 0 then 30 else days) = effective_retention days"
  by (simp add: effective_retention_def)






end
